theory Spec2Isabelle
  imports Complex_Main "HOL-Library.Word"
begin

unbundle bit_operations_syntax

section \<open>SRTM terrain importer: the host-independent logic of \<open>__init__.py\<close>\<close>

text \<open>
  Conventions of the embedding.
  \<^item> Python floats are read as real numbers: \<open>math.pi\<close> is \<open>pi\<close>, \<open>math.cos\<close> is \<open>cos\<close>.
    Rounding is not modelled. The results of numpy's true division, which can be
    \<open>nan\<close> or \<open>inf\<close>, are values of the type \<open>npfloat\<close>.
  \<^item> Samples are \<open>16 word\<close>, read as signed by \<open>sint\<close>: numpy's \<open>int16\<close>, whose
    arithmetic wraps around.
  \<^item> An exception is a value \<open>Inl e\<close> of a sum type.
  \<^item> A file is its content (a list of bytes) and its base name
    (\<open>os.path.basename(filepath)\<close>), an ASCII string.
\<close>

subsection \<open>Tile geometry\<close>

definition EARTH_RADIUS :: real where
  "EARTH_RADIUS = 6378137"

text \<open>\<open>math.radians\<close>.\<close>

definition radians :: "real \<Rightarrow> real" where
  "radians d = d * pi / 180"

definition get_tile_dimensions :: "real \<Rightarrow> real \<times> real" where
  "get_tile_dimensions lat =
     (let lat_rad = radians lat;
          ns_distance = pi * EARTH_RADIUS / 180;
          ew_distance = ns_distance * cos lat_rad
      in (ew_distance, ns_distance))"

subsection \<open>Exceptions\<close>

datatype value_error = cannot_reshape | invalid_literal | zero_size_reduction

datatype py_error = ValueError value_error | IndexError

subsection \<open>Reading the grid\<close>

text \<open>
  \<open>np.fromfile(filepath, dtype='>i2')\<close>: big-endian pairs of bytes; a trailing odd
  byte is not read.
\<close>

fun np_fromfile :: "8 word list \<Rightarrow> 16 word list" where
  "np_fromfile (hi # lo # bs) = (push_bit 8 (ucast hi) OR ucast lo) # np_fromfile bs"
| "np_fromfile _ = []"

text \<open>\<open>int(np.sqrt(data.size))\<close>: the square root, truncated.\<close>

definition grid_size :: "nat \<Rightarrow> nat" where
  "grid_size n = nat \<lfloor>sqrt (real n)\<rfloor>"

text \<open>The rows of a \<open>rows \<times> cols\<close> array filled from a flat list, row-major.\<close>

primrec row_major :: "nat \<Rightarrow> nat \<Rightarrow> 'a list \<Rightarrow> 'a list list" where
  "row_major 0 cols xs = []"
| "row_major (Suc n) cols xs = take cols xs # row_major n cols (drop cols xs)"

text \<open>
  \<open>data.reshape((size, size))\<close>: numpy raises ValueError unless the new shape holds
  exactly the elements of the array.
\<close>

definition reshape :: "'a list \<Rightarrow> nat \<Rightarrow> py_error + 'a list list" where
  "reshape data n =
     (if n * n = length data then Inr (row_major n n data)
      else Inl (ValueError cannot_reshape))"

text \<open>Lines 239 to 241 of \<open>create_terrain_from_hgt\<close>.\<close>

definition read_heightmap :: "8 word list \<Rightarrow> py_error + 16 word list list" where
  "read_heightmap file =
     (let data = np_fromfile file;
          n = grid_size (length data)
      in reshape data n)"

subsection \<open>Minimum, maximum and normalization\<close>

text \<open>
  A float: a finite value (read as a real), or one of the three special values that
  numpy's division by zero produces.
\<close>

datatype npfloat = Fin real | NaN | PosInf | NegInf

definition smin :: "16 word \<Rightarrow> 16 word \<Rightarrow> 16 word" where
  "smin a b = (if sint a \<le> sint b then a else b)"

definition smax :: "16 word \<Rightarrow> 16 word \<Rightarrow> 16 word" where
  "smax a b = (if sint a \<le> sint b then b else a)"

text \<open>
  \<open>heightmap.min()\<close> and \<open>heightmap.max()\<close>, over all the samples of the grid. On an
  array with no element numpy raises ValueError (zero-size array to reduction
  operation).
\<close>

definition np_min :: "16 word list list \<Rightarrow> py_error + 16 word" where
  "np_min heightmap =
     (case concat heightmap of
        [] \<Rightarrow> Inl (ValueError zero_size_reduction)
      | x # xs \<Rightarrow> Inr (fold smin xs x))"

definition np_max :: "16 word list list \<Rightarrow> py_error + 16 word" where
  "np_max heightmap =
     (case concat heightmap of
        [] \<Rightarrow> Inl (ValueError zero_size_reduction)
      | x # xs \<Rightarrow> Inr (fold smax xs x))"

text \<open>
  \<open>a / b\<close> on \<open>int16\<close> operands: numpy's true division gives a float; a zero divisor
  raises nothing and gives \<open>nan\<close> (for 0 / 0) or an infinity.
\<close>

definition true_divide :: "16 word \<Rightarrow> 16 word \<Rightarrow> npfloat" where
  "true_divide a b =
     (if sint b = 0
      then (if sint a = 0 then NaN else if 0 < sint a then PosInf else NegInf)
      else Fin (real_of_int (sint a) / real_of_int (sint b)))"

text \<open>
  Line 74: \<open>(heightmap - height_min) / (height_max - height_min)\<close>. Both differences
  are \<open>int16\<close> (the array's type and the type of the scalars that \<open>min\<close> and \<open>max\<close>
  return), so both wrap around: \<open>-\<close> on \<open>16 word\<close>.
\<close>

definition heightmap_normalized :: "16 word list list \<Rightarrow> 16 word \<Rightarrow> 16 word \<Rightarrow> npfloat list list" where
  "heightmap_normalized heightmap height_min height_max =
     map (map (\<lambda>v. true_divide (v - height_min) (height_max - height_min))) heightmap"

text \<open>Lines 73 and 74 of \<open>create_heightmap_texture\<close>: the normalization.\<close>

definition normalization :: "16 word list list \<Rightarrow> py_error + npfloat list list" where
  "normalization heightmap =
     (case np_min heightmap of
        Inl e \<Rightarrow> Inl e
      | Inr height_min \<Rightarrow>
          (case np_max heightmap of
             Inl e \<Rightarrow> Inl e
           | Inr height_max \<Rightarrow> Inr (heightmap_normalized heightmap height_min height_max)))"

text \<open>
  The image of line 76 and what line 81 assigns to it. \<open>pixels_assigned\<close> is the
  list \<open>pixels\<close> of the source, the right-hand side of \<open>texture.pixels = pixels\<close>.
  The image is created without a float buffer, so the host keeps 8 bits for each
  channel; what it keeps of the assigned values is the host's conversion and is not
  part of this model.
\<close>

record image =
  image_name :: string
  image_width :: nat
  image_height :: nat
  pixels_assigned :: "npfloat list"

text \<open>
  The two loops of lines 78 to 80, over \<open>range(size)\<close> with \<open>size = heightmap.shape[0]\<close>:
  four channels for each sample, the normalized height in the red one. The caller
  passes a square grid, so every index is in range.
\<close>

definition pixels_of :: "nat \<Rightarrow> npfloat list list \<Rightarrow> npfloat list" where
  "pixels_of n normalized =
     concat (map (\<lambda>y. concat (map (\<lambda>x. [normalized ! y ! x, Fin 0, Fin 0, Fin 1]) [0..<n])) [0..<n])"

definition create_heightmap_texture :: "16 word list list \<Rightarrow> string \<Rightarrow> py_error + image" where
  "create_heightmap_texture heightmap name =
     (let n = length heightmap in
      case normalization heightmap of
        Inl e \<Rightarrow> Inl e
      | Inr normalized \<Rightarrow>
          Inr \<lparr>image_name = name @ ''_height'', image_width = n, image_height = n,
               pixels_assigned = pixels_of n normalized\<rparr>)"

subsection \<open>Coordinates from the file name\<close>

text \<open>Python's \<open>s[a:b]\<close> and \<open>s[i]\<close> for indices that are not negative.\<close>

definition py_slice :: "nat \<Rightarrow> nat \<Rightarrow> 'a list \<Rightarrow> 'a list" where
  "py_slice a b s = take (b - a) (drop a s)"

definition py_index :: "'a list \<Rightarrow> nat \<Rightarrow> py_error + 'a" where
  "py_index s i = (if i < length s then Inr (s ! i) else Inl IndexError)"

text \<open>
  \<open>int(s)\<close> on an ASCII string: white space (tab, line feed, vertical tab, form
  feed, carriage return, space) is stripped on both sides, one sign may come first,
  then decimal digits, where single underscores may stand between two digits.
  Anything else raises ValueError.
\<close>

definition is_space :: "char \<Rightarrow> bool" where
  "is_space c = ((of_char c :: nat) \<in> {9, 10, 11, 12, 13, 32})"

definition is_digit :: "char \<Rightarrow> bool" where
  "is_digit c = (48 \<le> (of_char c :: nat) \<and> (of_char c :: nat) \<le> 57)"

definition digit_val :: "char \<Rightarrow> int" where
  "digit_val c = int (of_char c) - 48"

definition strip :: "string \<Rightarrow> string" where
  "strip s = rev (dropWhile is_space (rev (dropWhile is_space s)))"

fun digits_from :: "int \<Rightarrow> string \<Rightarrow> int option" where
  "digits_from acc [] = Some acc"
| "digits_from acc [c] = (if is_digit c then Some (10 * acc + digit_val c) else None)"
| "digits_from acc (c # d # cs) =
     (if is_digit c then digits_from (10 * acc + digit_val c) (d # cs)
      else if c = CHR ''_'' \<and> is_digit d then digits_from (10 * acc + digit_val d) cs
      else None)"

definition parse_digits :: "string \<Rightarrow> int option" where
  "parse_digits s =
     (case s of
        [] \<Rightarrow> None
      | c # cs \<Rightarrow> if is_digit c then digits_from (digit_val c) cs else None)"

definition py_int :: "string \<Rightarrow> py_error + int" where
  "py_int s =
     (let r = (case strip s of
                 [] \<Rightarrow> None
               | c # cs \<Rightarrow>
                   if c = CHR ''-'' then map_option uminus (parse_digits cs)
                   else if c = CHR ''+'' then parse_digits cs
                   else parse_digits (c # cs))
      in case r of None \<Rightarrow> Inl (ValueError invalid_literal) | Some v \<Rightarrow> Inr v)"

text \<open>Lines 245 to 250 of \<open>create_terrain_from_hgt\<close>, in the order of the source.\<close>

definition extract_coordinates :: "string \<Rightarrow> py_error + int \<times> int" where
  "extract_coordinates basename =
     (case py_int (py_slice 1 3 basename) of
        Inl e \<Rightarrow> Inl e
      | Inr lat \<Rightarrow>
     (case py_int (py_slice 4 7 basename) of
        Inl e \<Rightarrow> Inl e
      | Inr lon \<Rightarrow>
     (case py_index basename 0 of
        Inl e \<Rightarrow> Inl e
      | Inr c0 \<Rightarrow>
     (case py_index basename 3 of
        Inl e \<Rightarrow> Inl e
      | Inr c3 \<Rightarrow>
          Inr (if c0 = CHR ''S'' then - lat else lat,
               if c3 = CHR ''W'' then - lon else lon)))))"

text \<open>
  The file name pattern of the format: a hemisphere letter and two digits, a
  hemisphere letter and three digits, and the extension.
\<close>

definition hgt_name :: "string \<Rightarrow> bool" where
  "hgt_name s =
     (length s = 11 \<and> (s ! 0 = CHR ''N'' \<or> s ! 0 = CHR ''S'')
      \<and> is_digit (s ! 1) \<and> is_digit (s ! 2)
      \<and> (s ! 3 = CHR ''E'' \<or> s ! 3 = CHR ''W'')
      \<and> is_digit (s ! 4) \<and> is_digit (s ! 5) \<and> is_digit (s ! 6)
      \<and> drop 7 s = ''.hgt'')"

subsection \<open>The material: a shader node graph\<close>

text \<open>
  The nodes that \<open>create_terrain_material\<close> creates, under the names of its variables.
\<close>

datatype node =
    node_output | node_principled_bsdf | node_geometry | node_separate_xyz
  | node_map_range | node_color_ramp | node_displacement | node_texture
  | node_value_min | node_value_max | node_value_scale_z
  | node_math_height_range | node_math_min_div10 | node_math_max_div10
  | node_math_displacement_scale

text \<open>A socket of a node, addressed by position or by name as the source does.\<close>

datatype socket = at_index nat | named string

text \<open>\<open>links.new(a, b)\<close>: from an output socket \<open>a\<close> to an input socket \<open>b\<close>.\<close>

type_synonym link = "(node \<times> socket) \<times> (node \<times> socket)"

datatype color_scheme = scheme_default | scheme_grayscale

type_synonym rgba = "real \<times> real \<times> real \<times> real"

record material =
  material_name :: string
  material_links :: "link list"
  texture_image :: image
  value_min_default :: real
  value_max_default :: real
  value_scale_z_default :: real
  displacement_midlevel :: real
  displacement_space :: string
  map_range_to_min :: real
  map_range_to_max :: real
  map_range_clamp :: bool
  ramp_elements :: "(real \<times> rgba) list"
  displacement_method :: string

definition ramp_colors :: "color_scheme \<Rightarrow> (real \<times> rgba) list" where
  "ramp_colors color_scheme =
     (case color_scheme of
        scheme_default \<Rightarrow>
          [(0, (0, 78 / 1000, 153 / 1000, 1)),
           (25 / 100, (439 / 1000, 553 / 1000, 506 / 1000, 1)),
           (5 / 10, (957 / 1000, 835 / 1000, 553 / 1000, 1)),
           (75 / 100, (749 / 1000, 24 / 1000, 12 / 1000, 1)),
           (1, (553 / 1000, 31 / 1000, 4 / 1000, 1))]
      | scheme_grayscale \<Rightarrow>
          [(0, (1 / 10, 1 / 10, 1 / 10, 1)),
           (33 / 100, (3 / 10, 3 / 10, 3 / 10, 1)),
           (66 / 100, (6 / 10, 6 / 10, 6 / 10, 1)),
           (1, (9 / 10, 9 / 10, 9 / 10, 1))])"

text \<open>The sixteen calls of \<open>links.new\<close>, in the order of the source (lines 164 to 228).\<close>

definition terrain_links :: "link list" where
  "terrain_links =
     [((node_value_min, at_index 0), (node_math_height_range, at_index 1)),
      ((node_value_max, at_index 0), (node_math_height_range, at_index 0)),
      ((node_value_min, at_index 0), (node_math_min_div10, at_index 0)),
      ((node_value_max, at_index 0), (node_math_max_div10, at_index 0)),
      ((node_math_height_range, at_index 0), (node_math_displacement_scale, at_index 0)),
      ((node_value_scale_z, at_index 0), (node_math_displacement_scale, at_index 1)),
      ((node_math_displacement_scale, at_index 0), (node_displacement, named ''Scale'')),
      ((node_math_min_div10, at_index 0), (node_map_range, named ''From Min'')),
      ((node_math_max_div10, at_index 0), (node_map_range, named ''From Max'')),
      ((node_geometry, named ''Position''), (node_separate_xyz, named ''Vector'')),
      ((node_separate_xyz, named ''Z''), (node_map_range, at_index 0)),
      ((node_map_range, at_index 0), (node_color_ramp, at_index 0)),
      ((node_color_ramp, named ''Color''), (node_principled_bsdf, named ''Base Color'')),
      ((node_principled_bsdf, named ''BSDF''), (node_output, named ''Surface'')),
      ((node_texture, named ''Color''), (node_displacement, named ''Height'')),
      ((node_displacement, named ''Displacement''), (node_output, named ''Displacement''))]"

text \<open>
  \<open>create_terrain_material\<close>. Left out: the node positions in the editor, the
  constant settings of the principled shader and of the math nodes, and the printed
  debug values. Among the latter is \<open>terrain_ratio = height_range / width\<close>, which
  nothing else uses; its divisor is never zero in floating point, where the cosine of
  a latitude is never exactly 0, so the division raises nothing. The ramp gets the
  colours of the scheme, whose positions ascend. The two schemes are the two values
  of the operator's property.
\<close>

definition create_terrain_material ::
  "string \<Rightarrow> image \<Rightarrow> real \<Rightarrow> real \<Rightarrow> real \<Rightarrow> real \<Rightarrow> real \<Rightarrow> color_scheme \<Rightarrow> material" where
  "create_terrain_material name height_texture dem_min dem_max width height scale_z color_scheme =
     \<lparr>material_name = name @ ''_material'',
      material_links = terrain_links,
      texture_image = height_texture,
      value_min_default = dem_min,
      value_max_default = dem_max,
      value_scale_z_default = scale_z,
      displacement_midlevel = 0,
      displacement_space = ''OBJECT'',
      map_range_to_min = 0,
      map_range_to_max = 1,
      map_range_clamp = True,
      ramp_elements = ramp_colors color_scheme,
      displacement_method = ''DISPLACEMENT''\<rparr>"

text \<open>
  Data flow in the graph: a node feeds the nodes its outputs are linked to, and a
  node \<open>reaches\<close> an input socket when a chain of links leads from it to a link into
  that socket.
\<close>

definition node_edges :: "link list \<Rightarrow> (node \<times> node) set" where
  "node_edges ls = (\<lambda>l. (fst (fst l), fst (snd l))) ` set ls"

definition reaches :: "link list \<Rightarrow> node \<Rightarrow> node \<times> socket \<Rightarrow> bool" where
  "reaches ls src target =
     (\<exists>l. l \<in> set ls \<and> snd l = target \<and> (src, fst (fst l)) \<in> (node_edges ls)\<^sup>*)"

subsection \<open>The import\<close>

text \<open>
  \<open>os.path.splitext(basename)[0]\<close>: the name up to its last dot, when a character
  other than a dot stands before that dot; the whole name otherwise.
\<close>

definition splitext_root :: "string \<Rightarrow> string" where
  "splitext_root p =
     (let ext = takeWhile (\<lambda>c. c \<noteq> CHR ''.'') (rev p);
          root = rev (drop (Suc (length ext)) (rev p))
      in if length ext < length p \<and> (\<exists>c \<in> set root. c \<noteq> CHR ''.'') then root else p)"

text \<open>
  The object that \<open>create_terrain_from_hgt\<close> returns: the plane, its transform, its
  modifier, its material and its custom properties. The name read back from the
  plane is taken to be the name assigned to it. \<open>number_cuts_argument\<close> is the
  argument of the call \<open>bpy.ops.mesh.subdivide(number_cuts=subdivisions)\<close>; how many
  cuts the host makes of it is the host's matter.
\<close>

record terrain =
  object_name :: string
  location_x :: real
  location_y :: real
  scale_x :: real
  scale_y :: real
  subsurf_levels :: nat
  subsurf_render_levels :: nat
  number_cuts_argument :: int
  object_material :: material
  latitude :: int
  longitude :: int
  dem_min :: real
  dem_max :: real
  tile_width :: real
  tile_height :: real

definition create_terrain_from_hgt ::
  "8 word list \<Rightarrow> string \<Rightarrow> int \<Rightarrow> real \<Rightarrow> color_scheme \<Rightarrow> py_error + terrain" where
  "create_terrain_from_hgt file basename subdivisions scale_z color_scheme =
     (case read_heightmap file of
        Inl e \<Rightarrow> Inl e
      | Inr heightmap \<Rightarrow>
     (case extract_coordinates basename of
        Inl e \<Rightarrow> Inl e
      | Inr (lat, lon) \<Rightarrow>
     (let (width, height) = get_tile_dimensions (real_of_int lat);
          name = splitext_root basename
      in
     (case np_min heightmap of
        Inl e \<Rightarrow> Inl e
      | Inr lo \<Rightarrow>
     (case np_max heightmap of
        Inl e \<Rightarrow> Inl e
      | Inr hi \<Rightarrow>
     (case create_heightmap_texture heightmap name of
        Inl e \<Rightarrow> Inl e
      | Inr height_texture \<Rightarrow>
          Inr \<lparr>object_name = name,
               location_x = width * real_of_int lon,
               location_y = height * real_of_int lat,
               scale_x = width,
               scale_y = height,
               subsurf_levels = 2,
               subsurf_render_levels = 2,
               number_cuts_argument = subdivisions,
               object_material =
                 create_terrain_material name height_texture
                   (real_of_int (sint lo)) (real_of_int (sint hi)) width height scale_z color_scheme,
               latitude = lat,
               longitude = lon,
               dem_min = real_of_int (sint lo),
               dem_max = real_of_int (sint hi),
               tile_width = width,
               tile_height = height\<rparr>))))))"

text \<open>
  \<open>ImportHGTDisplacementOperator.execute\<close>: no \<open>try\<close>, no \<open>self.report\<close>. An exception
  of the import leaves \<open>execute\<close> as it is; otherwise the terrain is selected and
  made active, and the result is \<open>{'FINISHED'}\<close>.
\<close>

datatype operator_result = FINISHED | CANCELLED

definition execute ::
  "8 word list \<Rightarrow> string \<Rightarrow> int \<Rightarrow> real \<Rightarrow> color_scheme \<Rightarrow> py_error + operator_result \<times> terrain" where
  "execute file basename subdivisions scale_z color_scheme =
     (case create_terrain_from_hgt file basename subdivisions scale_z color_scheme of
        Inl e \<Rightarrow> Inl e
      | Inr terrain \<Rightarrow> Inr (FINISHED, terrain))"

text \<open>The element count is not a perfect square: the malformed input of the format.\<close>

definition malformed :: "8 word list \<Rightarrow> bool" where
  "malformed file = (\<not> (\<exists>k. length (np_fromfile file) = k * k))"

subsection \<open>Facts about the loader\<close>

lemma length_np_fromfile: "length (np_fromfile bs) = length bs div 2"
  by (induction bs rule: np_fromfile.induct) simp_all

lemma grid_size_square: "grid_size (k * k) = k"
proof -
  have "sqrt (real (k * k)) = real k"
    by simp
  then show ?thesis
    by (simp add: grid_size_def)
qed

text \<open>
  The truncated square root is the integer square root, so \<open>grid_size\<close> can be
  computed on any count.
\<close>

lemma grid_size_unique:
  assumes "k * k \<le> n" and "n < Suc k * Suc k"
  shows "grid_size n = k"
proof -
  have "real k * real k \<le> real n"
    using assms(1) by (metis of_nat_le_iff of_nat_mult)
  then have "sqrt (real k * real k) \<le> sqrt (real n)"
    by (simp only: real_sqrt_le_iff)
  then have lo: "real k \<le> sqrt (real n)"
    by simp
  have "real n < real (Suc k) * real (Suc k)"
    using assms(2) by (metis of_nat_less_iff of_nat_mult)
  then have "sqrt (real n) < sqrt (real (Suc k) * real (Suc k))"
    by (simp only: real_sqrt_less_iff)
  then have hi: "sqrt (real n) < real k + 1"
    by simp
  have "\<lfloor>sqrt (real n)\<rfloor> = int k"
    using lo hi by (intro floor_unique) simp_all
  then show ?thesis
    by (simp add: grid_size_def)
qed

text \<open>For the evaluation of \<open>row_major\<close> on a numeral.\<close>

lemma row_major_numeral:
  "row_major (numeral n) c xs = take c xs # row_major (pred_numeral n) c (drop c xs)"
  by (simp add: numeral_eq_Suc)

lemma length_row_major: "length (row_major n c xs) = n"
  by (induction n arbitrary: xs) simp_all

lemma concat_row_major: "n * c = length xs \<Longrightarrow> concat (row_major n c xs) = xs"
proof (induction n arbitrary: xs)
  case 0
  then show ?case by simp
next
  case (Suc n)
  have "n * c = length (drop c xs)"
    using Suc.prems by simp
  then have "concat (row_major n c (drop c xs)) = drop c xs"
    by (rule Suc.IH)
  then show ?case by simp
qed

lemma row_major_row_length:
  "n * c = length xs \<Longrightarrow> r \<in> set (row_major n c xs) \<Longrightarrow> length r = c"
proof (induction n arbitrary: xs)
  case 0
  then show ?case by simp
next
  case (Suc n)
  have len: "n * c = length (drop c xs)"
    using Suc.prems(1) by simp
  have "c \<le> length xs"
    using Suc.prems(1) by simp
  then have "length (take c xs) = c"
    by simp
  then show ?case
    using Suc.prems(2) Suc.IH [OF len] by auto
qed

lemma read_heightmap_square:
  assumes "length (np_fromfile file) = k * k"
  shows "read_heightmap file = Inr (row_major k k (np_fromfile file))"
  using assms by (simp add: read_heightmap_def reshape_def grid_size_square)

lemma read_heightmap_not_square:
  assumes "\<not> (\<exists>k. length (np_fromfile file) = k * k)"
  shows "read_heightmap file = Inl (ValueError cannot_reshape)"
proof -
  have "grid_size (length (np_fromfile file)) * grid_size (length (np_fromfile file))
          \<noteq> length (np_fromfile file)"
    using assms by metis
  then show ?thesis
    by (simp add: read_heightmap_def reshape_def Let_def)
qed

lemma between_squares_not_square:
  fixes n k :: nat
  assumes "k * k < n" and "n < Suc k * Suc k"
  shows "\<not> (\<exists>j. n = j * j)"
proof
  assume "\<exists>j. n = j * j"
  then obtain j where j: "n = j * j" ..
  have "k < j"
  proof (rule ccontr)
    assume "\<not> k < j"
    then have "j \<le> k" by simp
    then have "j * j \<le> k * k" by (simp add: mult_le_mono)
    with assms(1) j show False by simp
  qed
  then have "Suc k \<le> j" by simp
  then have "Suc k * Suc k \<le> j * j" by (intro mult_le_mono)
  with assms(2) j show False by simp
qed

subsection \<open>Facts about the file name parser\<close>

lemma digit_not_space: "is_digit c \<Longrightarrow> \<not> is_space c"
  by (auto simp: is_digit_def is_space_def)

lemma digit_not_sign: "is_digit c \<Longrightarrow> c \<noteq> CHR ''-'' \<and> c \<noteq> CHR ''+'' \<and> c \<noteq> CHR ''_''"
  by (auto simp: is_digit_def)

lemma strip_digits2: "is_digit a \<Longrightarrow> is_digit b \<Longrightarrow> strip [a, b] = [a, b]"
  by (simp add: strip_def digit_not_space)

lemma strip_digits3: "is_digit a \<Longrightarrow> is_digit b \<Longrightarrow> is_digit c \<Longrightarrow> strip [a, b, c] = [a, b, c]"
  by (simp add: strip_def digit_not_space)

lemma py_int_two_digits:
  "is_digit a \<Longrightarrow> is_digit b \<Longrightarrow> py_int [a, b] = Inr (10 * digit_val a + digit_val b)"
  by (simp add: py_int_def strip_digits2 parse_digits_def digit_not_sign)

lemma py_int_three_digits:
  "is_digit a \<Longrightarrow> is_digit b \<Longrightarrow> is_digit c \<Longrightarrow>
   py_int [a, b, c] = Inr (100 * digit_val a + 10 * digit_val b + digit_val c)"
  by (simp add: py_int_def strip_digits3 parse_digits_def digit_not_sign)

lemma py_slice2:
  assumes "j = i + 2" and "k = i + 1" and "j \<le> length s"
  shows "py_slice i j s = [s ! i, s ! k]"
proof (rule nth_equalityI)
  show "length (py_slice i j s) = length [s ! i, s ! k]"
    using assms by (simp add: py_slice_def)
next
  fix n
  assume "n < length (py_slice i j s)"
  then have "n = 0 \<or> n = 1"
    using assms by (auto simp: py_slice_def)
  then show "py_slice i j s ! n = [s ! i, s ! k] ! n"
    using assms by (auto simp: py_slice_def)
qed

lemma py_slice3:
  assumes "j = i + 3" and "k = i + 1" and "m = i + 2" and "j \<le> length s"
  shows "py_slice i j s = [s ! i, s ! k, s ! m]"
proof (rule nth_equalityI)
  show "length (py_slice i j s) = length [s ! i, s ! k, s ! m]"
    using assms by (simp add: py_slice_def)
next
  fix n
  assume "n < length (py_slice i j s)"
  then have "n = 0 \<or> n = 1 \<or> n = 2"
    using assms by (auto simp: py_slice_def)
  then show "py_slice i j s ! n = [s ! i, s ! k, s ! m] ! n"
    using assms by (auto simp: py_slice_def)
qed

subsection \<open>Facts about minimum, maximum and normalization\<close>

lemma fold_smin_le: "sint (fold smin xs x) \<le> sint x \<and> (\<forall>y \<in> set xs. sint (fold smin xs x) \<le> sint y)"
proof (induction xs arbitrary: x)
  case Nil
  then show ?case by simp
next
  case (Cons a xs)
  have "sint (smin a x) \<le> sint a" "sint (smin a x) \<le> sint x"
    by (simp_all add: smin_def)
  then show ?case
    using Cons.IH [of "smin a x"] by fastforce
qed

lemma fold_smax_ge: "sint x \<le> sint (fold smax xs x) \<and> (\<forall>y \<in> set xs. sint y \<le> sint (fold smax xs x))"
proof (induction xs arbitrary: x)
  case Nil
  then show ?case by simp
next
  case (Cons a xs)
  have "sint a \<le> sint (smax a x)" "sint x \<le> sint (smax a x)"
    by (simp_all add: smax_def)
  then show ?case
    using Cons.IH [of "smax a x"] by fastforce
qed

lemma fold_smin_mem: "fold smin xs x \<in> set (x # xs)"
proof (induction xs arbitrary: x)
  case Nil
  then show ?case by simp
next
  case (Cons a xs)
  have "smin a x = a \<or> smin a x = x"
    by (simp add: smin_def)
  then show ?case
    using Cons.IH [of "smin a x"] by auto
qed

lemma fold_smax_mem: "fold smax xs x \<in> set (x # xs)"
proof (induction xs arbitrary: x)
  case Nil
  then show ?case by simp
next
  case (Cons a xs)
  have "smax a x = a \<or> smax a x = x"
    by (simp add: smax_def)
  then show ?case
    using Cons.IH [of "smax a x"] by auto
qed

lemma np_min_Inr:
  assumes "np_min g = Inr lo"
  obtains x xs where "concat g = x # xs" and "lo = fold smin xs x"
  using assms by (auto simp: np_min_def split: list.splits)

lemma np_max_Inr:
  assumes "np_max g = Inr hi"
  obtains x xs where "concat g = x # xs" and "hi = fold smax xs x"
  using assms by (auto simp: np_max_def split: list.splits)

lemma np_min_lower:
  assumes "np_min g = Inr lo" and "v \<in> set (concat g)"
  shows "sint lo \<le> sint v"
proof -
  obtain x xs where c: "concat g = x # xs" and lo: "lo = fold smin xs x"
    using assms(1) by (rule np_min_Inr)
  have "v \<in> set (x # xs)"
    using assms(2) unfolding c .
  then show ?thesis
    using fold_smin_le [of xs x] lo by auto
qed

lemma np_max_upper:
  assumes "np_max g = Inr hi" and "v \<in> set (concat g)"
  shows "sint v \<le> sint hi"
proof -
  obtain x xs where c: "concat g = x # xs" and hi: "hi = fold smax xs x"
    using assms(1) by (rule np_max_Inr)
  have "v \<in> set (x # xs)"
    using assms(2) unfolding c .
  then show ?thesis
    using fold_smax_ge [of x xs] hi by auto
qed

lemma np_min_mem:
  assumes "np_min g = Inr lo"
  shows "lo \<in> set (concat g)"
proof -
  obtain x xs where c: "concat g = x # xs" and lo: "lo = fold smin xs x"
    using assms by (rule np_min_Inr)
  show ?thesis
    unfolding c lo by (rule fold_smin_mem)
qed

lemma np_max_mem:
  assumes "np_max g = Inr hi"
  shows "hi \<in> set (concat g)"
proof -
  obtain x xs where c: "concat g = x # xs" and hi: "hi = fold smax xs x"
    using assms by (rule np_max_Inr)
  show ?thesis
    unfolding c hi by (rule fold_smax_mem)
qed

lemma flat_samples:
  assumes "np_min g = Inr m" and "np_max g = Inr m" and "v \<in> set (concat g)"
  shows "v = m"
proof -
  have "sint m \<le> sint v"
    using assms(1,3) by (rule np_min_lower)
  moreover have "sint v \<le> sint m"
    using assms(2,3) by (rule np_max_upper)
  ultimately have "sint v = sint m"
    by simp
  then show ?thesis
    by (rule signed_word_eqI)
qed

lemma heightmap_normalized_flat:
  assumes "np_min g = Inr m" and "np_max g = Inr m"
  shows "heightmap_normalized g m m = map (map (\<lambda>v. NaN)) g"
proof -
  have "true_divide (v - m) (m - m) = NaN" if "r \<in> set g" and "v \<in> set r" for r v
  proof -
    have "v \<in> set (concat g)"
      using that by auto
    then have "v = m"
      using assms by (intro flat_samples)
    then show ?thesis
      by (simp add: true_divide_def)
  qed
  then show ?thesis
    by (simp add: heightmap_normalized_def)
qed

subsection \<open>The normalization where the differences do not wrap around\<close>

lemma sint_sub_no_wrap:
  fixes a b :: "16 word"
  assumes "- 32768 \<le> sint a - sint b" and "sint a - sint b < 32768"
  shows "sint (a - b) = sint a - sint b"
proof -
  have "sint (a - b) = signed_take_bit 15 (sint a - sint b)"
    by (simp add: sint_word_ariths)
  also have "\<dots> = sint a - sint b"
    using assms by (intro signed_take_bit_int_eq_self) simp_all
  finally show ?thesis .
qed

lemma sint_nonzero:
  fixes a :: "16 word"
  assumes "a \<noteq> 0"
  shows "sint a \<noteq> 0"
proof
  assume "sint a = 0"
  then have "sint a = sint (0 :: 16 word)"
    by simp
  then have "a = 0"
    by (rule signed_word_eqI)
  with assms show False
    by simp
qed

lemma true_divide_finite:
  "sint b \<noteq> 0 \<Longrightarrow> true_divide a b = Fin (real_of_int (sint a) / real_of_int (sint b))"
  by (simp add: true_divide_def del: of_int_sint)

lemma ratio_in_unit:
  fixes n d :: int
  assumes "0 \<le> n" and "n \<le> d" and "0 < d"
  shows "0 \<le> real_of_int n / real_of_int d \<and> real_of_int n / real_of_int d \<le> 1"
  using assms by simp

lemma true_divide_in_range:
  fixes v lo hi :: "16 word"
  assumes "sint lo \<le> sint v" and "sint v \<le> sint hi" and "sint lo < sint hi"
    and "sint hi - sint lo < 32768"
  shows "\<exists>x. true_divide (v - lo) (hi - lo) = Fin x \<and> 0 \<le> x \<and> x \<le> 1"
proof -
  have n: "sint (v - lo) = sint v - sint lo"
    using assms by (intro sint_sub_no_wrap) simp_all
  have d: "sint (hi - lo) = sint hi - sint lo"
    using assms by (intro sint_sub_no_wrap) simp_all
  have "sint (hi - lo) \<noteq> 0"
    using assms(3) d by simp
  then have "true_divide (v - lo) (hi - lo) =
      Fin (real_of_int (sint (v - lo)) / real_of_int (sint (hi - lo)))"
    by (rule true_divide_finite)
  moreover have "0 \<le> real_of_int (sint (v - lo)) / real_of_int (sint (hi - lo))
      \<and> real_of_int (sint (v - lo)) / real_of_int (sint (hi - lo)) \<le> 1"
    unfolding n d using assms by (intro ratio_in_unit) simp_all
  ultimately show ?thesis
    by blast
qed

lemma true_divide_ends:
  fixes lo hi :: "16 word"
  assumes "lo \<noteq> hi"
  shows "true_divide (lo - lo) (hi - lo) = Fin 0" and "true_divide (hi - lo) (hi - lo) = Fin 1"
proof -
  have "hi - lo \<noteq> 0"
    using assms by simp
  then have nz: "sint (hi - lo) \<noteq> 0"
    by (rule sint_nonzero)
  show "true_divide (lo - lo) (hi - lo) = Fin 0"
    using nz by (simp add: true_divide_finite)
  show "true_divide (hi - lo) (hi - lo) = Fin 1"
    using nz by (simp add: true_divide_finite del: of_int_sint)
qed

lemma concat_heightmap_normalized:
  "concat (heightmap_normalized g lo hi) = map (\<lambda>v. true_divide (v - lo) (hi - lo)) (concat g)"
  by (simp add: heightmap_normalized_def map_concat)

lemma normalization_Inr:
  "np_min g = Inr lo \<Longrightarrow> np_max g = Inr hi \<Longrightarrow> normalization g = Inr (heightmap_normalized g lo hi)"
  by (simp add: normalization_def)

text \<open>
  Where the range of the samples fits in 15 bits, the normalized grid is what its
  name says: every entry is in [0, 1], and 0 and 1 are entries.
\<close>

lemma normalization_range_without_overflow:
  assumes "np_min g = Inr lo" and "np_max g = Inr hi" and "sint lo < sint hi"
    and "sint hi - sint lo < 32768"
  shows "\<forall>y \<in> set (concat (heightmap_normalized g lo hi)). \<exists>x. y = Fin x \<and> 0 \<le> x \<and> x \<le> 1"
    and "Fin 0 \<in> set (concat (heightmap_normalized g lo hi))"
    and "Fin 1 \<in> set (concat (heightmap_normalized g lo hi))"
proof -
  let ?f = "\<lambda>v. true_divide (v - lo) (hi - lo)"
  have ne: "lo \<noteq> hi"
    using assms(3) by auto
  show "\<forall>y \<in> set (concat (heightmap_normalized g lo hi)). \<exists>x. y = Fin x \<and> 0 \<le> x \<and> x \<le> 1"
  proof
    fix y
    assume "y \<in> set (concat (heightmap_normalized g lo hi))"
    then obtain v where mem: "v \<in> set (concat g)" and y: "y = ?f v"
      unfolding concat_heightmap_normalized by auto
    have "sint lo \<le> sint v"
      using assms(1) mem by (rule np_min_lower)
    moreover have "sint v \<le> sint hi"
      using assms(2) mem by (rule np_max_upper)
    ultimately show "\<exists>x. y = Fin x \<and> 0 \<le> x \<and> x \<le> 1"
      unfolding y using assms(3,4) by (intro true_divide_in_range)
  qed
  have "lo \<in> set (concat g)"
    using assms(1) by (rule np_min_mem)
  then have "?f lo \<in> set (map ?f (concat g))"
    unfolding set_map by (rule imageI)
  then show "Fin 0 \<in> set (concat (heightmap_normalized g lo hi))"
    unfolding concat_heightmap_normalized true_divide_ends(1) [OF ne] .
  have "hi \<in> set (concat g)"
    using assms(2) by (rule np_max_mem)
  then have "?f hi \<in> set (map ?f (concat g))"
    unfolding set_map by (rule imageI)
  then show "Fin 1 \<in> set (concat (heightmap_normalized g lo hi))"
    unfolding concat_heightmap_normalized true_divide_ends(2) [OF ne] .
qed

subsection \<open>Bounds on what \<open>int\<close> returns\<close>

lemma digit_val_range: "is_digit c \<Longrightarrow> 0 \<le> digit_val c \<and> digit_val c \<le> 9"
  by (auto simp: is_digit_def digit_val_def)

lemma digits_from_bound:
  "digits_from acc cs = Some v \<Longrightarrow> 0 \<le> acc \<Longrightarrow> 0 \<le> v \<and> v < (acc + 1) * 10 ^ length cs"
proof (induction acc cs rule: digits_from.induct)
  case (1 acc)
  then show ?case by simp
next
  case (2 acc c)
  then have "is_digit c" and v: "v = 10 * acc + digit_val c"
    by (auto split: if_splits)
  then show ?case
    using digit_val_range [of c] "2.prems"(2) by simp
next
  case (3 acc c d cs)
  show ?case
  proof (cases "is_digit c")
    case True
    let ?a = "10 * acc + digit_val c"
    have a: "0 \<le> ?a" "?a + 1 \<le> 10 * (acc + 1)"
      using digit_val_range [OF True] "3.prems"(2) by simp_all
    have "digits_from ?a (d # cs) = Some v"
      using "3.prems"(1) True by simp
    then have v: "0 \<le> v \<and> v < (?a + 1) * 10 ^ length (d # cs)"
      using "3.IH"(1) [OF True] a(1) by simp
    then have "v < (?a + 1) * 10 ^ length (d # cs)" ..
    also have "\<dots> \<le> (10 * (acc + 1)) * 10 ^ length (d # cs)"
      using a(2) by (intro mult_right_mono) simp_all
    also have "\<dots> = (acc + 1) * 10 ^ length (c # d # cs)"
      by simp
    finally show ?thesis
      using v by simp
  next
    case False
    then have u: "c = CHR ''_''" "is_digit d"
      using "3.prems"(1) by (auto split: if_splits)
    let ?a = "10 * acc + digit_val d"
    have a: "0 \<le> ?a" "?a + 1 \<le> 10 * (acc + 1)"
      using digit_val_range [OF u(2)] "3.prems"(2) by simp_all
    have "digits_from ?a cs = Some v"
      using "3.prems"(1) False u by simp
    then have v: "0 \<le> v \<and> v < (?a + 1) * 10 ^ length cs"
      using "3.IH"(2) [OF False] u a(1) by simp
    then have "v < (?a + 1) * 10 ^ length cs" ..
    also have "\<dots> \<le> (10 * (acc + 1)) * 10 ^ length cs"
      using a(2) by (intro mult_right_mono) simp_all
    also have "\<dots> \<le> (acc + 1) * 10 ^ length (c # d # cs)"
      using "3.prems"(2) by simp
    finally show ?thesis
      using v by simp
  qed
qed

lemma parse_digits_bound:
  assumes "parse_digits s = Some v"
  shows "0 \<le> v \<and> v < 10 ^ length s"
proof (cases s)
  case Nil
  with assms show ?thesis by (simp add: parse_digits_def)
next
  case (Cons c cs)
  then have c: "is_digit c" and d: "digits_from (digit_val c) cs = Some v"
    using assms by (auto simp: parse_digits_def split: if_splits)
  have r: "0 \<le> digit_val c" "digit_val c + 1 \<le> 10"
    using digit_val_range [OF c] by simp_all
  have v: "0 \<le> v \<and> v < (digit_val c + 1) * 10 ^ length cs"
    using digits_from_bound [OF d r(1)] by simp
  then have "v < (digit_val c + 1) * 10 ^ length cs" ..
  also have "\<dots> \<le> 10 * 10 ^ length cs"
    using r(2) by (intro mult_right_mono) simp_all
  also have "\<dots> = 10 ^ length s"
    using Cons by simp
  finally show ?thesis
    using v by simp
qed

lemma length_strip: "length (strip s) \<le> length s"
proof -
  have "length (strip s) = length (dropWhile is_space (rev (dropWhile is_space s)))"
    by (simp add: strip_def)
  also have "\<dots> \<le> length (rev (dropWhile is_space s))"
    by (rule length_dropWhile_le)
  also have "\<dots> \<le> length s"
    by (simp add: length_dropWhile_le)
  finally show ?thesis .
qed

lemma py_int_bound:
  assumes "py_int s = Inr v"
  shows "\<bar>v\<bar> < 10 ^ length s"
proof -
  have mono: "(10::int) ^ length (strip s) \<le> 10 ^ length s"
    using length_strip [of s] by (intro power_increasing) simp_all
  have "\<bar>v\<bar> < 10 ^ length (strip s)"
  proof (cases "strip s")
    case Nil
    with assms show ?thesis by (simp add: py_int_def)
  next
    case (Cons c cs)
    have le: "(10::int) ^ length cs \<le> 10 ^ length (c # cs)"
      by simp
    consider (neg) w where "parse_digits cs = Some w" "v = - w"
      | (pos) "parse_digits cs = Some v"
      | (plain) "parse_digits (c # cs) = Some v"
      using assms Cons by (auto simp: py_int_def split: if_splits option.splits)
    then show ?thesis
    proof cases
      case neg
      then show ?thesis
        using parse_digits_bound [of cs w] le Cons by simp
    next
      case pos
      then show ?thesis
        using parse_digits_bound [of cs v] le Cons by simp
    next
      case plain
      then show ?thesis
        using parse_digits_bound [of "c # cs" v] Cons by simp
    qed
  qed
  with mono show ?thesis
    by linarith
qed

lemma extract_coordinates_bound:
  assumes "extract_coordinates name = Inr (lat, lon)"
  shows "\<bar>lat\<bar> \<le> 99 \<and> \<bar>lon\<bar> \<le> 999"
proof -
  obtain a b where a: "py_int (py_slice 1 3 name) = Inr a" and b: "py_int (py_slice 4 7 name) = Inr b"
    and lat: "\<bar>lat\<bar> = \<bar>a\<bar>" and lon: "\<bar>lon\<bar> = \<bar>b\<bar>"
    using assms by (auto simp: extract_coordinates_def split: sum.splits if_splits)
  have "\<bar>a\<bar> < 10 ^ length (py_slice 1 3 name)"
    using a by (rule py_int_bound)
  also have "\<dots> \<le> 10 ^ 2"
    by (intro power_increasing) (simp_all add: py_slice_def)
  finally have "\<bar>a\<bar> \<le> 99"
    by simp
  have "\<bar>b\<bar> < 10 ^ length (py_slice 4 7 name)"
    using b by (rule py_int_bound)
  also have "\<dots> \<le> 10 ^ 3"
    by (intro power_increasing) (simp_all add: py_slice_def)
  finally have "\<bar>b\<bar> \<le> 999"
    by simp
  with \<open>\<bar>a\<bar> \<le> 99\<close> lat lon show ?thesis
    by simp
qed

subsection \<open>Facts about the import\<close>

lemma create_terrain_from_hgt_read_error:
  assumes "read_heightmap file = Inl e"
  shows "create_terrain_from_hgt file name subdivisions scale_z cs = Inl e"
  using assms by (simp add: create_terrain_from_hgt_def)

lemma create_terrain_from_hgt_name_error:
  assumes "read_heightmap file = Inr g" and "extract_coordinates name = Inl e"
  shows "create_terrain_from_hgt file name subdivisions scale_z cs = Inl e"
  using assms by (simp add: create_terrain_from_hgt_def)

lemma create_terrain_from_hgt_min_error:
  assumes "read_heightmap file = Inr g" and "extract_coordinates name = Inr c"
    and "np_min g = Inl e"
  shows "create_terrain_from_hgt file name subdivisions scale_z cs = Inl e"
  using assms by (cases c) (simp add: create_terrain_from_hgt_def split: prod.splits)

lemma create_heightmap_texture_Inr:
  assumes "np_min g = Inr lo" and "np_max g = Inr hi"
  shows "create_heightmap_texture g name =
           Inr \<lparr>image_name = name @ ''_height'', image_width = length g, image_height = length g,
                pixels_assigned = pixels_of (length g) (heightmap_normalized g lo hi)\<rparr>"
  using assms by (simp add: create_heightmap_texture_def normalization_def Let_def)

lemma create_terrain_from_hgt_coordinates:
  assumes "create_terrain_from_hgt file name subdivisions scale_z cs = Inr t"
  shows "extract_coordinates name = Inr (latitude t, longitude t)"
  using assms
  by (auto simp: create_terrain_from_hgt_def Let_def split: sum.splits prod.splits)

lemma create_terrain_from_hgt_Inr:
  assumes "read_heightmap file = Inr g" and "extract_coordinates name = Inr (lat, lon)"
    and "np_min g = Inr lo" and "np_max g = Inr hi"
  shows "\<exists>t. create_terrain_from_hgt file name subdivisions scale_z cs = Inr t
           \<and> latitude t = lat \<and> longitude t = lon
           \<and> dem_min t = real_of_int (sint lo) \<and> dem_max t = real_of_int (sint hi)"
  using assms
  by (simp add: create_terrain_from_hgt_def create_heightmap_texture_Inr [OF assms(3,4)] Let_def
      split: prod.splits del: of_int_sint)

lemma execute_error:
  "create_terrain_from_hgt file name subdivisions scale_z cs = Inl e \<Longrightarrow>
   execute file name subdivisions scale_z cs = Inl e"
  by (simp add: execute_def)

lemma read_heightmap_empty: "read_heightmap [] = Inr []"
  by (simp add: read_heightmap_def grid_size_def reshape_def)

lemma np_min_empty: "np_min [] = Inl (ValueError zero_size_reduction)"
  by (simp add: np_min_def)

lemma create_terrain_from_hgt_empty:
  "\<exists>e. create_terrain_from_hgt [] name subdivisions scale_z cs = Inl e"
proof (cases "extract_coordinates name")
  case (Inl e)
  then show ?thesis
    using create_terrain_from_hgt_name_error [OF read_heightmap_empty] by blast
next
  case (Inr c)
  then show ?thesis
    using create_terrain_from_hgt_min_error [OF read_heightmap_empty _ np_min_empty] by blast
qed

text \<open>Sample inputs.\<close>

lemma sample_grid:
  "read_heightmap [0, 1, 0, 2, 0, 3, 0, 4] = Inr [[1, 2], [3, 4]]"
  "np_min [[1, 2], [3, 4]] = Inr 1"
  "np_max [[1, 2], [3, 4]] = Inr 4"
  by (simp_all add: read_heightmap_def grid_size_def reshape_def row_major_numeral
      np_min_def np_max_def smin_def smax_def)

lemma sample_names:
  "extract_coordinates ''N99E999.hgt'' = Inr (99, 999)"
  "extract_coordinates ''N37W122.hgt'' = Inr (37, - 122)"
  "extract_coordinates ''S05W007.hgt'' = Inr (- 5, - 7)"
  by (simp_all add: extract_coordinates_def py_int_def py_slice_def strip_def is_space_def
      py_index_def parse_digits_def is_digit_def digit_val_def)

lemma three_samples_malformed: "malformed [0, 1, 0, 2, 0, 3]"
proof -
  have "\<not> (\<exists>j. (3::nat) = j * j)"
    by (rule between_squares_not_square [of 1]) simp_all
  moreover have "length (np_fromfile [0, 1, 0, 2, 0, 3]) = 3"
    by simp
  ultimately show ?thesis
    unfolding malformed_def by metis
qed

lemma large_file_malformed: "malformed (replicate 2880002 0)"
proof -
  have "\<not> (\<exists>j. (1440001::nat) = j * j)"
    by (rule between_squares_not_square [of 1200]) simp_all
  then show ?thesis
    by (simp add: malformed_def length_np_fromfile)
qed

subsection \<open>Facts about the node graph and the texture\<close>

lemma reachesI:
  assumes "l \<in> set ls" and "snd l = target" and "(src, fst (fst l)) \<in> (node_edges ls)\<^sup>*"
  shows "reaches ls src target"
  using assms unfolding reaches_def by blast

lemma node_edgeI: "((a, s), (b, s')) \<in> set ls \<Longrightarrow> (a, b) \<in> node_edges ls"
  by (force simp: node_edges_def)

lemma texture_reaches_height:
  "reaches terrain_links node_texture (node_displacement, named ''Height'')"
  by (rule reachesI [of "((node_texture, named ''Color''), (node_displacement, named ''Height''))"])
    (simp_all add: terrain_links_def)

lemma texture_reaches_displacement_output:
  "reaches terrain_links node_texture (node_output, named ''Displacement'')"
proof (rule reachesI [of "((node_displacement, named ''Displacement''), (node_output, named ''Displacement''))"])
  have "(node_texture, node_displacement) \<in> node_edges terrain_links"
    by (rule node_edgeI [of _ "named ''Color''" _ "named ''Height''"]) (simp add: terrain_links_def)
  then show "(node_texture, fst (fst ((node_displacement, named ''Displacement''), (node_output, named ''Displacement''))))
      \<in> (node_edges terrain_links)\<^sup>*"
    by simp
qed (simp_all add: terrain_links_def)

lemma upt_0_2: "[0..<2] = [0, 1]"
  by (simp add: upt_rec)

lemma pixels_of_2:
  "pixels_of 2 [[a, b], [c, d]] =
     [a, Fin 0, Fin 0, Fin 1, b, Fin 0, Fin 0, Fin 1, c, Fin 0, Fin 0, Fin 1, d, Fin 0, Fin 0, Fin 1]"
  by (simp add: pixels_of_def upt_0_2)

lemma sample_normalized:
  "heightmap_normalized [[1, 2], [3, 4]] 1 4 = [[Fin 0, Fin (1 / 3)], [Fin (2 / 3), Fin 1]]"
  by (simp add: heightmap_normalized_def true_divide_def)

lemma create_terrain_from_hgt_material:
  assumes "create_terrain_from_hgt file name subdivisions scale_z cs = Inr t"
  shows "\<exists>g lo hi. read_heightmap file = Inr g \<and> np_min g = Inr lo \<and> np_max g = Inr hi
           \<and> pixels_assigned (texture_image (object_material t))
               = pixels_of (length g) (heightmap_normalized g lo hi)
           \<and> material_links (object_material t) = terrain_links
           \<and> displacement_method (object_material t) = ''DISPLACEMENT''"
proof -
  obtain g lat lon lo hi img where g: "read_heightmap file = Inr g"
    and "extract_coordinates name = Inr (lat, lon)"
    and lo: "np_min g = Inr lo" and hi: "np_max g = Inr hi"
    and img: "create_heightmap_texture g (splitext_root name) = Inr img"
    and m: "object_material t = create_terrain_material (splitext_root name) img
        (real_of_int (sint lo)) (real_of_int (sint hi))
        (fst (get_tile_dimensions (real_of_int lat))) (snd (get_tile_dimensions (real_of_int lat)))
        scale_z cs"
    using assms
    by (auto simp: create_terrain_from_hgt_def Let_def split: sum.splits prod.splits
        simp del: of_int_sint)
  have "pixels_assigned img = pixels_of (length g) (heightmap_normalized g lo hi)"
    using img create_heightmap_texture_Inr [OF lo hi, of "splitext_root name"] by auto
  then show ?thesis
    using g lo hi m by (auto simp: create_terrain_material_def)
qed

section \<open>Claims\<close>

text \<open>
  C1. For every latitude in degrees, \<open>get_tile_dimensions\<close> returns the pair
  (east-west, north-south) with north-south = pi * 6378137 / 180, the same for every
  latitude, and east-west = north-south * cos(latitude), the latitude converted to
  radians. The function is total: it has no error result.
\<close>

theorem get_tile_dimensions_formula:
  "get_tile_dimensions lat = (pi * 6378137 / 180 * cos (lat * pi / 180), pi * 6378137 / 180)
   \<and> snd (get_tile_dimensions lat) = snd (get_tile_dimensions lat')
   \<and> fst (get_tile_dimensions lat) = snd (get_tile_dimensions 0) * cos (radians lat)"
  by (simp add: get_tile_dimensions_def EARTH_RADIUS_def radians_def)

text \<open>
  C2. The claim: for a grid whose minimum is below its maximum, the normalized copy
  has minimum 0, maximum 1 and every entry in [0, 1]. The two differences of line 74
  are 16-bit and wrap around, so this fails as soon as the range of the samples
  passes 32767: for the file of the four samples -32768 (the void value of the
  format), -32767, 0 and 1000 the divisor wraps to -31768, and the entries are
  0, -1/31768, 4096/3971 and 1. One entry is below 0 and one above 1.
\<close>

theorem normalization_overflow:
  "read_heightmap [0x80, 0x00, 0x80, 0x01, 0x00, 0x00, 0x03, 0xE8] = Inr [[- 32768, - 32767], [0, 1000]]
   \<and> np_min [[- 32768, - 32767], [0, 1000]] = Inr (- 32768)
   \<and> np_max [[- 32768, - 32767], [0, 1000]] = Inr 1000
   \<and> normalization [[- 32768, - 32767], [0, 1000]] =
       Inr [[Fin 0, Fin (- 1 / 31768)], [Fin (4096 / 3971), Fin 1]]"
proof -
  have rd: "read_heightmap [0x80, 0x00, 0x80, 0x01, 0x00, 0x00, 0x03, 0xE8] = Inr [[- 32768, - 32767], [0, 1000]]"
    by (simp add: read_heightmap_def grid_size_def reshape_def row_major_numeral)
  have mn: "np_min [[- 32768, - 32767], [0, 1000]] = Inr (- 32768)"
    by (simp add: np_min_def smin_def)
  have mx: "np_max [[- 32768, - 32767], [0, 1000]] = Inr 1000"
    by (simp add: np_max_def smax_def)
  have "normalization [[- 32768, - 32767], [0, 1000]] =
       Inr [[Fin 0, Fin (- 1 / 31768)], [Fin (4096 / 3971), Fin 1]]"
    by (simp add: normalization_def mn mx heightmap_normalized_def true_divide_def)
  with rd mn mx show ?thesis
    by simp
qed

text \<open>
  C3. The loader fails with ValueError (the shape does not fit) for every file whose
  number of 16-bit samples is not a perfect square, and for \<open>k * k\<close> samples it
  returns a grid of \<open>k\<close> rows of \<open>k\<close> samples that holds the samples in order.
\<close>

theorem read_heightmap_perfect_square:
  "(\<not> (\<exists>k. length file div 2 = k * k) \<longrightarrow> read_heightmap file = Inl (ValueError cannot_reshape))
   \<and> (\<forall>k. length file div 2 = k * k \<longrightarrow>
         (\<exists>g. read_heightmap file = Inr g \<and> length g = k \<and> (\<forall>r \<in> set g. length r = k)
              \<and> concat g = np_fromfile file))"
proof (intro conjI allI impI)
  assume "\<not> (\<exists>k. length file div 2 = k * k)"
  then show "read_heightmap file = Inl (ValueError cannot_reshape)"
    by (intro read_heightmap_not_square) (simp add: length_np_fromfile)
next
  fix k
  assume "length file div 2 = k * k"
  then have sq: "length (np_fromfile file) = k * k"
    by (simp add: length_np_fromfile)
  have "read_heightmap file = Inr (row_major k k (np_fromfile file))"
    using sq by (rule read_heightmap_square)
  moreover have "length (row_major k k (np_fromfile file)) = k"
    by (rule length_row_major)
  moreover have "\<forall>r \<in> set (row_major k k (np_fromfile file)). length r = k"
    using sq by (auto dest: row_major_row_length [rotated])
  moreover have "concat (row_major k k (np_fromfile file)) = np_fromfile file"
    using sq by (intro concat_row_major) simp
  ultimately show "\<exists>g. read_heightmap file = Inr g \<and> length g = k \<and> (\<forall>r \<in> set g. length r = k)
              \<and> concat g = np_fromfile file"
    by blast
qed

text \<open>
  A file of 1200 * 1200 + 1 samples is rejected; one of 1201 * 1201 samples is read.
\<close>

theorem read_heightmap_perfect_square_witness:
  "read_heightmap (replicate 2880002 0) = Inl (ValueError cannot_reshape)
   \<and> (\<exists>g. read_heightmap (replicate 2884802 0) = Inr g \<and> length g = 1201)"
proof -
  have "\<not> (\<exists>j. (1440001::nat) = j * j)"
    by (rule between_squares_not_square [of 1200]) simp_all
  then have a: "\<not> (\<exists>k. length (replicate 2880002 (0 :: 8 word)) div 2 = k * k)"
    by simp
  have b: "length (replicate 2884802 (0 :: 8 word)) div 2 = 1201 * 1201"
    by simp
  show ?thesis
    using read_heightmap_perfect_square [of "replicate 2880002 0"] a
      read_heightmap_perfect_square [of "replicate 2884802 0"] b
    by blast
qed

text \<open>
  C4. On a flat tile (the minimum sample equals the maximum sample) the divisor of
  the normalization, \<open>height_max - height_min\<close>, is zero; the division raises nothing,
  and every entry of the normalized grid is \<open>nan\<close>: no entry is a finite number, and
  the source has no other branch for this case.
\<close>

theorem normalization_flat:
  assumes "np_min g = Inr lo" and "np_max g = Inr hi" and "lo = hi"
  shows "hi - lo = 0 \<and> normalization g = Inr (map (map (\<lambda>v. NaN)) g)"
  using assms heightmap_normalized_flat [of g lo]
  by (simp add: normalization_def)

theorem normalization_flat_witness:
  "np_min [[5, 5], [5, 5]] = Inr 5 \<and> np_max [[5, 5], [5, 5]] = Inr 5
   \<and> normalization [[5, 5], [5, 5]] = Inr [[NaN, NaN], [NaN, NaN]]"
proof -
  have a: "np_min [[5, 5], [5, 5]] = Inr 5"
    by (simp add: np_min_def smin_def)
  have b: "np_max [[5, 5], [5, 5]] = Inr 5"
    by (simp add: np_max_def smax_def)
  show ?thesis
    using normalization_flat [OF a b] a b by simp
qed

text \<open>
  C5. For a base name of the form [NS]DD[EW]DDD.hgt the latitude is the number of
  the two digits at positions 1 and 2, negated exactly when the first character is S,
  and the longitude the number of the three digits at positions 4 to 6, negated
  exactly when the character at position 3 is W.
\<close>

theorem extract_coordinates_hgt_name:
  assumes "hgt_name s"
  shows "extract_coordinates s =
           Inr (if s ! 0 = CHR ''S'' then - (10 * digit_val (s ! 1) + digit_val (s ! 2))
                else 10 * digit_val (s ! 1) + digit_val (s ! 2),
                if s ! 3 = CHR ''W''
                then - (100 * digit_val (s ! 4) + 10 * digit_val (s ! 5) + digit_val (s ! 6))
                else 100 * digit_val (s ! 4) + 10 * digit_val (s ! 5) + digit_val (s ! 6))"
proof -
  have len: "length s = 11"
    using assms by (simp add: hgt_name_def)
  have d: "is_digit (s ! 1)" "is_digit (s ! 2)" "is_digit (s ! 4)" "is_digit (s ! 5)" "is_digit (s ! 6)"
    using assms by (simp_all add: hgt_name_def)
  have s2: "py_slice 1 3 s = [s ! 1, s ! 2]"
    using len by (intro py_slice2) simp_all
  have lat: "py_int (py_slice 1 3 s) = Inr (10 * digit_val (s ! 1) + digit_val (s ! 2))"
    unfolding s2 by (rule py_int_two_digits [OF d(1) d(2)])
  have s3: "py_slice 4 7 s = [s ! 4, s ! 5, s ! 6]"
    using len by (intro py_slice3) simp_all
  have lon: "py_int (py_slice 4 7 s) =
      Inr (100 * digit_val (s ! 4) + 10 * digit_val (s ! 5) + digit_val (s ! 6))"
    unfolding s3 by (rule py_int_three_digits [OF d(3) d(4) d(5)])
  have ix: "py_index s 0 = Inr (s ! 0)" "py_index s 3 = Inr (s ! 3)"
    using len by (simp_all add: py_index_def)
  show ?thesis
    unfolding extract_coordinates_def lat lon ix by simp
qed

text \<open>\<open>N37W122.hgt\<close> gives latitude 37 and longitude -122.\<close>

theorem extract_coordinates_hgt_name_witness:
  "hgt_name ''N37W122.hgt'' \<and> extract_coordinates ''N37W122.hgt'' = Inr (37, - 122)
   \<and> hgt_name ''S05E007.hgt'' \<and> extract_coordinates ''S05E007.hgt'' = Inr (- 5, 7)"
  using extract_coordinates_hgt_name [of "''N37W122.hgt''"]
    extract_coordinates_hgt_name [of "''S05E007.hgt''"]
  by (simp add: hgt_name_def is_digit_def digit_val_def)

text \<open>
  C6. The claim: for every file name the import accepts, the latitude is in
  [-90, 90] and the longitude in [-180, 180]. The source checks no range: the name
  \<open>N99E999.hgt\<close> is accepted, with latitude 99 and longitude 999.
\<close>

theorem coordinates_out_of_range:
  "(case create_terrain_from_hgt [0, 1, 0, 2, 0, 3, 0, 4] ''N99E999.hgt'' 50 1 scheme_default of
      Inl e \<Rightarrow> False
    | Inr t \<Rightarrow> latitude t = 99 \<and> longitude t = 999 \<and> \<not> latitude t \<le> 90 \<and> \<not> longitude t \<le> 180)"
proof -
  obtain t where "create_terrain_from_hgt [0, 1, 0, 2, 0, 3, 0, 4] ''N99E999.hgt'' 50 1 scheme_default = Inr t"
    and "latitude t = 99" and "longitude t = 999"
    using create_terrain_from_hgt_Inr [OF sample_grid(1) sample_names(1) sample_grid(2,3)]
    by blast
  then show ?thesis
    by simp
qed

text \<open>
  C6, as amended. For every file name the import accepts, the latitude is in
  [-99, 99] and the longitude in [-999, 999]: what two and three characters can
  spell.
\<close>

theorem imported_coordinates_range:
  assumes "create_terrain_from_hgt file name subdivisions scale_z cs = Inr t"
  shows "- 99 \<le> latitude t \<and> latitude t \<le> 99 \<and> - 999 \<le> longitude t \<and> longitude t \<le> 999"
proof -
  have "extract_coordinates name = Inr (latitude t, longitude t)"
    using assms by (rule create_terrain_from_hgt_coordinates)
  then have "\<bar>latitude t\<bar> \<le> 99 \<and> \<bar>longitude t\<bar> \<le> 999"
    by (rule extract_coordinates_bound)
  then show ?thesis
    by linarith
qed

theorem imported_coordinates_range_witness:
  "\<exists>t. create_terrain_from_hgt [0, 1, 0, 2, 0, 3, 0, 4] ''S05W007.hgt'' 50 1 scheme_default = Inr t
     \<and> latitude t = - 5 \<and> longitude t = - 7
     \<and> - 99 \<le> latitude t \<and> latitude t \<le> 99 \<and> - 999 \<le> longitude t \<and> longitude t \<le> 999"
proof -
  obtain t where t: "create_terrain_from_hgt [0, 1, 0, 2, 0, 3, 0, 4] ''S05W007.hgt'' 50 1 scheme_default = Inr t"
    and "latitude t = - 5" and "longitude t = - 7"
    using create_terrain_from_hgt_Inr [OF sample_grid(1) sample_names(3) sample_grid(2,3)]
    by blast
  then show ?thesis
    using imported_coordinates_range [OF t] by blast
qed

text \<open>
  C7. The claim: on a malformed input the failure is reported to the user interface
  and no exception leaves \<open>execute\<close>. On a file of three samples \<open>execute\<close> ends
  with the ValueError of \<open>reshape\<close>.
\<close>

theorem execute_propagates_counterexample:
  "malformed [0, 1, 0, 2, 0, 3]
   \<and> execute [0, 1, 0, 2, 0, 3] ''N37W122.hgt'' 50 1 scheme_default = Inl (ValueError cannot_reshape)"
proof -
  have "read_heightmap [0, 1, 0, 2, 0, 3] = Inl (ValueError cannot_reshape)"
    using three_samples_malformed unfolding malformed_def by (rule read_heightmap_not_square)
  then show ?thesis
    using three_samples_malformed
    by (simp add: execute_error create_terrain_from_hgt_read_error)
qed

text \<open>
  C7, as amended. On every malformed input (an element count that is not a perfect
  square) the ValueError of \<open>reshape\<close> leaves \<open>create_terrain_from_hgt\<close> and, not
  caught, leaves \<open>execute\<close>: the operator returns no result.
\<close>

theorem execute_malformed:
  assumes "malformed file"
  shows "create_terrain_from_hgt file name subdivisions scale_z cs = Inl (ValueError cannot_reshape)
         \<and> execute file name subdivisions scale_z cs = Inl (ValueError cannot_reshape)"
proof -
  have "read_heightmap file = Inl (ValueError cannot_reshape)"
    using assms unfolding malformed_def by (rule read_heightmap_not_square)
  then have "create_terrain_from_hgt file name subdivisions scale_z cs = Inl (ValueError cannot_reshape)"
    by (rule create_terrain_from_hgt_read_error)
  then show ?thesis
    by (simp add: execute_error)
qed

theorem execute_malformed_witness:
  "malformed (replicate 2880002 0)
   \<and> create_terrain_from_hgt (replicate 2880002 0) ''N37W122.hgt'' 50 1 scheme_default
       = Inl (ValueError cannot_reshape)
   \<and> execute (replicate 2880002 0) ''N37W122.hgt'' 50 1 scheme_default = Inl (ValueError cannot_reshape)"
  using execute_malformed [OF large_file_malformed] large_file_malformed by simp

text \<open>
  C8. The claim: the normalized heightmap serves the display (colour) only, and no
  output that affects the geometry depends on it. In the material of an imported
  tile the pixel list assigned to the height texture carries the normalized grid,
  the texture node reaches the displacement socket of the material output, and the
  displacement method is true displacement.
\<close>

theorem texture_feeds_displacement:
  "(case create_terrain_from_hgt [0, 1, 0, 2, 0, 3, 0, 4] ''N37W122.hgt'' 50 1 scheme_default of
      Inl e \<Rightarrow> False
    | Inr t \<Rightarrow>
        pixels_assigned (texture_image (object_material t)) =
          [Fin 0, Fin 0, Fin 0, Fin 1, Fin (1 / 3), Fin 0, Fin 0, Fin 1,
           Fin (2 / 3), Fin 0, Fin 0, Fin 1, Fin 1, Fin 0, Fin 0, Fin 1]
        \<and> reaches (material_links (object_material t)) node_texture (node_output, named ''Displacement'')
        \<and> displacement_method (object_material t) = ''DISPLACEMENT'')"
proof -
  obtain t where t: "create_terrain_from_hgt [0, 1, 0, 2, 0, 3, 0, 4] ''N37W122.hgt'' 50 1 scheme_default = Inr t"
    using create_terrain_from_hgt_Inr [OF sample_grid(1) sample_names(2) sample_grid(2,3)]
    by blast
  obtain g lo hi where "read_heightmap [0, 1, 0, 2, 0, 3, 0, 4] = Inr g"
    and "np_min g = Inr lo" and "np_max g = Inr hi"
    and px: "pixels_assigned (texture_image (object_material t))
               = pixels_of (length g) (heightmap_normalized g lo hi)"
    and ls: "material_links (object_material t) = terrain_links"
    and dm: "displacement_method (object_material t) = ''DISPLACEMENT''"
    using create_terrain_from_hgt_material [OF t] by blast
  then have gs: "g = [[1, 2], [3, 4]]" "lo = 1" "hi = 4"
    using sample_grid by simp_all
  have len: "length g = 2"
    unfolding gs by simp
  have "pixels_assigned (texture_image (object_material t)) =
          [Fin 0, Fin 0, Fin 0, Fin 1, Fin (1 / 3), Fin 0, Fin 0, Fin 1,
           Fin (2 / 3), Fin 0, Fin 0, Fin 1, Fin 1, Fin 0, Fin 0, Fin 1]"
    unfolding px len unfolding gs sample_normalized by (rule pixels_of_2)
  then show ?thesis
    using t ls dm texture_reaches_displacement_output by simp
qed

text \<open>
  C8, as amended. In the material of every imported tile the normalized heightmap
  is the red channel of the pixel list that the code assigns to the height texture,
  and it does reach an output that affects the geometry: the texture node is linked
  to the height input of the displacement node, whose output is linked to the
  displacement socket of the material output, with the displacement method
  \<open>DISPLACEMENT\<close>.
\<close>

theorem normalized_heightmap_drives_displacement:
  assumes "create_terrain_from_hgt file name subdivisions scale_z cs = Inr t"
  shows "(\<exists>g lo hi. read_heightmap file = Inr g \<and> np_min g = Inr lo \<and> np_max g = Inr hi
            \<and> pixels_assigned (texture_image (object_material t))
                = pixels_of (length g) (heightmap_normalized g lo hi))
         \<and> reaches (material_links (object_material t)) node_texture (node_displacement, named ''Height'')
         \<and> reaches (material_links (object_material t)) node_texture (node_output, named ''Displacement'')
         \<and> displacement_method (object_material t) = ''DISPLACEMENT''"
proof -
  obtain g lo hi where a: "read_heightmap file = Inr g \<and> np_min g = Inr lo \<and> np_max g = Inr hi
      \<and> pixels_assigned (texture_image (object_material t))
          = pixels_of (length g) (heightmap_normalized g lo hi)"
    and ls: "material_links (object_material t) = terrain_links"
    and dm: "displacement_method (object_material t) = ''DISPLACEMENT''"
    using create_terrain_from_hgt_material [OF assms] by blast
  have "\<exists>g lo hi. read_heightmap file = Inr g \<and> np_min g = Inr lo \<and> np_max g = Inr hi
      \<and> pixels_assigned (texture_image (object_material t))
          = pixels_of (length g) (heightmap_normalized g lo hi)"
    using a by blast
  then show ?thesis
    unfolding ls
    using dm texture_reaches_height texture_reaches_displacement_output
    by simp
qed

theorem normalized_heightmap_drives_displacement_witness:
  "\<exists>t. create_terrain_from_hgt [0, 1, 0, 2, 0, 3, 0, 4] ''S05W007.hgt'' 50 1 scheme_grayscale = Inr t
     \<and> pixels_assigned (texture_image (object_material t)) =
          [Fin 0, Fin 0, Fin 0, Fin 1, Fin (1 / 3), Fin 0, Fin 0, Fin 1,
           Fin (2 / 3), Fin 0, Fin 0, Fin 1, Fin 1, Fin 0, Fin 0, Fin 1]
     \<and> reaches (material_links (object_material t)) node_texture (node_displacement, named ''Height'')
     \<and> reaches (material_links (object_material t)) node_texture (node_output, named ''Displacement'')
     \<and> displacement_method (object_material t) = ''DISPLACEMENT''"
proof -
  obtain t where t: "create_terrain_from_hgt [0, 1, 0, 2, 0, 3, 0, 4] ''S05W007.hgt'' 50 1 scheme_grayscale = Inr t"
    using create_terrain_from_hgt_Inr [OF sample_grid(1) sample_names(3) sample_grid(2,3)]
    by blast
  obtain g lo hi where "read_heightmap [0, 1, 0, 2, 0, 3, 0, 4] = Inr g"
    and "np_min g = Inr lo" and "np_max g = Inr hi"
    and px: "pixels_assigned (texture_image (object_material t))
               = pixels_of (length g) (heightmap_normalized g lo hi)"
    and r: "reaches (material_links (object_material t)) node_texture (node_displacement, named ''Height'')"
      "reaches (material_links (object_material t)) node_texture (node_output, named ''Displacement'')"
      "displacement_method (object_material t) = ''DISPLACEMENT''"
    using normalized_heightmap_drives_displacement [OF t] by blast
  then have gs: "g = [[1, 2], [3, 4]]" "lo = 1" "hi = 4"
    using sample_grid by simp_all
  have len: "length g = 2"
    unfolding gs by simp
  have "pixels_assigned (texture_image (object_material t)) =
          [Fin 0, Fin 0, Fin 0, Fin 1, Fin (1 / 3), Fin 0, Fin 0, Fin 1,
           Fin (2 / 3), Fin 0, Fin 0, Fin 1, Fin 1, Fin 0, Fin 0, Fin 1]"
    unfolding px len unfolding gs sample_normalized by (rule pixels_of_2)
  then show ?thesis
    using t r by blast
qed

text \<open>
  C9. The empty file passes the perfect-square test (0 elements make a 0 by 0 grid),
  and the import fails all the same: with a file name that parses, the minimum of
  the empty grid raises ValueError, which leaves \<open>create_terrain_from_hgt\<close> and
  \<open>execute\<close>; with any other file name the parser raises first.
\<close>

theorem empty_file_fails:
  "\<not> malformed [] \<and> read_heightmap [] = Inr []
   \<and> np_min [] = Inl (ValueError zero_size_reduction)
   \<and> (\<exists>e. create_terrain_from_hgt [] name subdivisions scale_z cs = Inl e)
   \<and> (\<exists>e. execute [] name subdivisions scale_z cs = Inl e)
   \<and> (\<forall>c. extract_coordinates name = Inr c \<longrightarrow>
         create_terrain_from_hgt [] name subdivisions scale_z cs = Inl (ValueError zero_size_reduction)
         \<and> execute [] name subdivisions scale_z cs = Inl (ValueError zero_size_reduction))"
proof -
  have "\<not> malformed []"
    by (simp add: malformed_def)
  moreover obtain e where e: "create_terrain_from_hgt [] name subdivisions scale_z cs = Inl e"
    using create_terrain_from_hgt_empty by blast
  moreover have "execute [] name subdivisions scale_z cs = Inl e"
    using e by (rule execute_error)
  moreover have "create_terrain_from_hgt [] name subdivisions scale_z cs = Inl (ValueError zero_size_reduction)
         \<and> execute [] name subdivisions scale_z cs = Inl (ValueError zero_size_reduction)"
    if "extract_coordinates name = Inr c" for c
    using create_terrain_from_hgt_min_error [OF read_heightmap_empty that np_min_empty]
    by (simp add: execute_error)
  ultimately show ?thesis
    using read_heightmap_empty np_min_empty by blast
qed

theorem empty_file_fails_witness:
  "extract_coordinates ''N37W122.hgt'' = Inr (37, - 122)
   \<and> read_heightmap [] = Inr []
   \<and> create_terrain_from_hgt [] ''N37W122.hgt'' 50 1 scheme_default = Inl (ValueError zero_size_reduction)
   \<and> execute [] ''N37W122.hgt'' 50 1 scheme_default = Inl (ValueError zero_size_reduction)"
  using empty_file_fails [of "''N37W122.hgt''" 50 1 scheme_default] sample_names(2)
  by simp

text \<open>
  C10. Hemisphere symmetry: \<open>get_tile_dimensions\<close> gives the same pair for a latitude
  and for its negation.
\<close>

theorem get_tile_dimensions_neg:
  "get_tile_dimensions (- lat) = get_tile_dimensions lat"
  by (simp add: get_tile_dimensions_def radians_def)

end
